theory Spec2Isabelle
  imports Complex_Main "HOL-Library.Word"
begin

section \<open>Point cloud patches (libpc/pc\_patch.c)\<close>

text \<open>
  A shallow embedding of \<^verbatim>\<open>src/libpc/pc_patch.c\<close>. Every C function of the file that the
  properties below talk about is a HOL function of the same name. The conventions:
  \<^item> a \<^verbatim>\<open>uint8_t\<close> buffer is a list of bytes; a pointer into it is the list and an offset;
  \<^item> a pointer that may be \<^verbatim>\<open>NULL\<close> is an \<open>option\<close>;
  \<^item> \<^verbatim>\<open>pcerror\<close> and \<^verbatim>\<open>pcwarn\<close> report and return to their caller, as the
    \<^verbatim>\<open>return NULL\<close> that follows \<^verbatim>\<open>pcerror\<close> all over the file presupposes; a function
    returns the list of its reports, in order, next to its C result;
  \<^item> a read or write outside a buffer and a dereferenced \<^verbatim>\<open>NULL\<close> are the outcome
    \<open>Undefined\<close>;
  \<^item> counts and \<^verbatim>\<open>size_t\<close> sizes are natural numbers: they measure buffers that exist in
    memory. Where a computed size decides what the code does, in the size check of the
    decoder, the product is taken modulo \<open>2 ^ size_t_bits\<close> as C computes it; the 32-bit
    fields of the wire header and the pcid are 32-bit words;
  \<^item> a \<^verbatim>\<open>double\<close> is a real number, an infinity or a NaN, compared as C compares them.
\<close>

subsection \<open>Values\<close>

type_synonym u8 = "8 word"
type_synonym u32 = "32 word"

datatype double = Finite real | PlusInf | MinusInf | NaN

text \<open>The C comparison \<^verbatim>\<open>a < b\<close> on doubles: false as soon as one side is a NaN.\<close>

fun dless :: "double \<Rightarrow> double \<Rightarrow> bool" where
  "dless NaN b = False"
| "dless a NaN = False"
| "dless (Finite a) (Finite b) = (a < b)"
| "dless a MinusInf = False"
| "dless MinusInf b = True"
| "dless PlusInf b = False"
| "dless (Finite a) PlusInf = True"

text \<open>The C comparison \<^verbatim>\<open>a > b\<close>.\<close>

definition dgreater :: "double \<Rightarrow> double \<Rightarrow> bool" where
  "dgreater a b = dless b a"

text \<open>
  \<^verbatim>\<open>MAXFLOAT\<close> of \<^verbatim>\<open>math.h\<close>: the largest finite single-precision number,
  \<open>(2 - 2\<^sup>-\<^sup>2\<^sup>3) * 2\<^sup>1\<^sup>2\<^sup>7\<close>.
\<close>

definition MAXFLOAT :: real where
  "MAXFLOAT = 2 ^ 128 - 2 ^ 104"

text \<open>
  The compression tags, as the format comments of the file number them
  (\<^verbatim>\<open>0 = no compression, 1 = dimensional, 2 = GHT\<close>). Only that they differ matters below.
\<close>

definition PC_NONE :: u32 where "PC_NONE = 0"
definition PC_DIMENSIONAL :: u32 where "PC_DIMENSIONAL = 1"
definition PC_GHT :: u32 where "PC_GHT = 2"

text \<open>
  Modelled from the spec: \<^verbatim>\<open>PCPATCH_DEFAULT_MAXPOINTS\<close>, a macro of a header that is not
  part of the source; "a fixed constant, e.g. 64 points".
\<close>

definition PCPATCH_DEFAULT_MAXPOINTS :: nat where
  "PCPATCH_DEFAULT_MAXPOINTS = 64"

datatype status = PC_SUCCESS | PC_FAILURE

text \<open>
  The error kinds of the specification; every \<^verbatim>\<open>pcerror\<close> call of the file reports one of
  them (zero or missing schema: \<open>InvalidSchema\<close>; zero-length input: \<open>EmptyInput\<close>; pcid,
  schema or compression tag disagreement: \<open>SchemaMismatch\<close>; size check of the decoder:
  \<open>SizeMismatch\<close>; a GHT, dimensional or unknown compression: \<open>UnsupportedCompression\<close>).
\<close>

datatype error =
  InvalidSchema | EmptyInput | NullArgument | SchemaMismatch | ReadOnlyViolation
  | CompressedViolation | SizeMismatch | UnsupportedCompression

datatype report = Pcerror error | Pcwarn

datatype 'a outcome = Returns 'a | Undefined

subsection \<open>Structures\<close>

text \<open>
  The fields of \<^verbatim>\<open>PCSCHEMA\<close> that the file reads. \<open>addr\<close> is the address of the structure:
  what two \<^verbatim>\<open>PCSCHEMA *\<close> are compared by. \<open>point_size\<close> is the field \<^verbatim>\<open>size\<close>.
\<close>

record PCSCHEMA =
  addr :: nat
  pcid :: u32
  point_size :: nat
  compression :: u32

record PCPOINT =
  pschema :: PCSCHEMA
  pdata :: "u8 list"

record PCPATCH =
  readonly :: bool
  npoints :: nat
  maxpoints :: nat
  schema :: PCSCHEMA
  xmin :: double
  xmax :: double
  ymin :: double
  ymax :: double
  compressed :: bool
  datasize :: nat
  data :: "u8 list"

subsection \<open>Collaborators outside the file\<close>

datatype endian = XDR | NDR

text \<open>
  What the file uses and does not define, as parameters: the byte order of the host and
  the width of its \<^verbatim>\<open>size_t\<close>, the coordinate accessors of a point, and the field-by-field
  byte swap of a buffer of points.
\<close>

record collaborators =
  machine_endian :: endian
  size_t_bits :: nat
  pc_point_get_x :: "PCPOINT \<Rightarrow> double"
  pc_point_get_y :: "PCPOINT \<Rightarrow> double"
  uncompressed_bytes_flip_endian :: "u8 list \<Rightarrow> PCSCHEMA \<Rightarrow> nat \<Rightarrow> u8 list"

text \<open>The flag byte of a byte order: \<^verbatim>\<open>1 = NDR, 0 = XDR\<close>.\<close>

fun endian_byte :: "endian \<Rightarrow> u8" where
  "endian_byte XDR = 0"
| "endian_byte NDR = 1"

fun other_endian :: "endian \<Rightarrow> endian" where
  "other_endian XDR = NDR"
| "other_endian NDR = XDR"

text \<open>Modelled from the spec: \<^verbatim>\<open>pcalloc\<close> "allocates a zeroed buffer".\<close>

definition pcalloc :: "nat \<Rightarrow> u8 list" where
  "pcalloc n = replicate n 0"

text \<open>
  \<^verbatim>\<open>pcrealloc\<close> keeps the old content up to the new size. What C leaves indeterminate (the
  bytes added) is zero here; nothing below depends on them.
\<close>

definition pcrealloc :: "u8 list \<Rightarrow> nat \<Rightarrow> u8 list" where
  "pcrealloc buf n = take n buf @ replicate (n - length buf) 0"

text \<open>
  \<^verbatim>\<open>memcpy(dst + off, src, n)\<close>: the destination buffer afterwards; undefined when \<open>n\<close> bytes
  are not there to read or to write.
\<close>

definition memcpy :: "u8 list \<Rightarrow> nat \<Rightarrow> u8 list \<Rightarrow> nat \<Rightarrow> u8 list outcome" where
  "memcpy dst off src n =
     (if n \<le> length src \<and> off + n \<le> length dst
      then Returns (take off dst @ take n src @ drop (off + n) dst)
      else Undefined)"

text \<open>
  A \<^verbatim>\<open>PCPATCH\<close> as \<^verbatim>\<open>pcalloc(sizeof(PCPATCH))\<close> leaves it, every field zero, with the
  schema pointer its constructor stores before anything reads it.
\<close>

definition pcalloc_PCPATCH :: "PCSCHEMA \<Rightarrow> PCPATCH" where
  "pcalloc_PCPATCH s =
     \<lparr>readonly = False, npoints = 0, maxpoints = 0, schema = s,
      xmin = Finite 0, xmax = Finite 0, ymin = Finite 0, ymax = Finite 0,
      compressed = False, datasize = 0, data = []\<rparr>"

text \<open>
  Modelled from the spec: \<^verbatim>\<open>pc_point_from_data\<close>, a point record bound to a schema over
  the bytes it is given.
\<close>

definition pc_point_from_data :: "PCSCHEMA \<Rightarrow> u8 list \<Rightarrow> PCPOINT" where
  "pc_point_from_data s d = \<lparr>pschema = s, pdata = d\<rparr>"

subsection \<open>The 32-bit fields of the wire header\<close>

fun le_value :: "u8 list \<Rightarrow> nat" where
  "le_value [] = 0"
| "le_value (b # bs) = unat b + 256 * le_value bs"

text \<open>Four bytes read as a 32-bit number in a byte order, and a number written in one.\<close>

fun u32_of_bytes :: "endian \<Rightarrow> u8 list \<Rightarrow> u32" where
  "u32_of_bytes NDR bs = of_nat (le_value bs)"
| "u32_of_bytes XDR bs = of_nat (le_value (rev bs))"

definition u32_bytes_le :: "u32 \<Rightarrow> u8 list" where
  "u32_bytes_le w = [ucast w, ucast (drop_bit 8 w), ucast (drop_bit 16 w), ucast (drop_bit 24 w)]"

fun bytes_of_u32 :: "endian \<Rightarrow> u32 \<Rightarrow> u8 list" where
  "bytes_of_u32 NDR w = u32_bytes_le w"
| "bytes_of_u32 XDR w = rev (u32_bytes_le w)"

text \<open>
  Modelled from the spec: \<^verbatim>\<open>wkb_get_pcid\<close>, \<^verbatim>\<open>wkb_get_compression\<close> and
  \<^verbatim>\<open>wkb_get_npoints\<close>, which read the 4-byte fields at offsets 1, 5 and 9 of the wire
  buffer "in the byte order of the flag" at offset 0: the host's order when the flag is the
  host's, the swapped order otherwise. They are given a pointer only; \<open>None\<close> is a read past
  the end of the buffer.
\<close>

definition wkb_get_u32 :: "collaborators \<Rightarrow> u8 list \<Rightarrow> nat \<Rightarrow> u32 option" where
  "wkb_get_u32 E wkb off =
     (if off + 4 \<le> length wkb
      then Some (u32_of_bytes
                   (if wkb ! 0 = endian_byte (machine_endian E) then machine_endian E
                    else other_endian (machine_endian E))
                   (take 4 (drop off wkb)))
      else None)"

definition wkb_get_pcid :: "collaborators \<Rightarrow> u8 list \<Rightarrow> u32 option" where
  "wkb_get_pcid E wkb = wkb_get_u32 E wkb 1"

definition wkb_get_compression :: "collaborators \<Rightarrow> u8 list \<Rightarrow> u32 option" where
  "wkb_get_compression E wkb = wkb_get_u32 E wkb 5"

definition wkb_get_npoints :: "collaborators \<Rightarrow> u8 list \<Rightarrow> u32 option" where
  "wkb_get_npoints E wkb = wkb_get_u32 E wkb 9"

subsection \<open>Construction and bounds\<close>

definition pc_patch_make :: "PCSCHEMA option \<Rightarrow> report list \<times> PCPATCH option" where
  "pc_patch_make s =
     (case s of
        None \<Rightarrow> ([Pcerror InvalidSchema], None)
      | Some s' \<Rightarrow>
          if point_size s' = 0 then ([Pcerror InvalidSchema], None)
          else
            let maxpoints' = PCPATCH_DEFAULT_MAXPOINTS;
                pch = (pcalloc_PCPATCH s') \<lparr>compressed := False\<rparr>;
                datasize' = point_size s' * maxpoints';
                pch = pch \<lparr>data := pcalloc datasize', datasize := datasize'\<rparr>;
                pch = pch \<lparr>xmin := Finite MAXFLOAT, ymin := Finite MAXFLOAT\<rparr>;
                pch = pch \<lparr>xmax := Finite (-1 * MAXFLOAT), ymax := Finite (-1 * MAXFLOAT)\<rparr>;
                pch = pch \<lparr>readonly := False, npoints := 0, maxpoints := maxpoints', schema := s'\<rparr>
            in ([], Some pch))"

text \<open>The four comparisons that widen the bounds of a patch to a point \<open>(x, y)\<close>.\<close>

definition extend_bounds :: "double \<Rightarrow> double \<Rightarrow> PCPATCH \<Rightarrow> PCPATCH" where
  "extend_bounds x y c =
     (let c = (if dgreater (xmin c) x then c \<lparr>xmin := x\<rparr> else c);
          c = (if dgreater (ymin c) y then c \<lparr>ymin := y\<rparr> else c);
          c = (if dless (xmax c) x then c \<lparr>xmax := x\<rparr> else c);
          c = (if dless (ymax c) y then c \<lparr>ymax := y\<rparr> else c)
      in c)"

text \<open>
  One round of the loop of \<^verbatim>\<open>pc_patch_compute_extent_uncompressed\<close>: the accessors read
  the point at index \<open>i\<close> of the buffer, and the point widens the bounds. They read fields
  of the \<^verbatim>\<open>size\<close> bytes at \<^verbatim>\<open>data + i * size\<close>: the round is undefined when these bytes are
  not all in the buffer, and when a point has no bytes at all.
\<close>

definition extent_step :: "collaborators \<Rightarrow> nat \<Rightarrow> PCPATCH \<Rightarrow> PCPATCH outcome" where
  "extent_step E i patch =
     (let sz = point_size (schema patch) in
      if sz = 0 \<or> length (data patch) < i * sz + sz then Undefined
      else
        let pt = pc_point_from_data (schema patch) (take sz (drop (i * sz) (data patch)));
            x = pc_point_get_x E pt;
            y = pc_point_get_y E pt
        in Returns (extend_bounds x y patch))"

text \<open>The loop, over the indices it still has to visit.\<close>

fun extent_loop :: "collaborators \<Rightarrow> nat list \<Rightarrow> PCPATCH \<Rightarrow> PCPATCH outcome" where
  "extent_loop E [] patch = Returns patch"
| "extent_loop E (i # js) patch =
     (case extent_step E i patch of
        Undefined \<Rightarrow> Undefined
      | Returns patch' \<Rightarrow> extent_loop E js patch')"

definition pc_patch_compute_extent_uncompressed ::
    "collaborators \<Rightarrow> PCPATCH \<Rightarrow> (status \<times> PCPATCH) outcome" where
  "pc_patch_compute_extent_uncompressed E patch =
     (let patch = patch \<lparr>xmin := Finite MAXFLOAT, ymin := Finite MAXFLOAT\<rparr>;
          patch = patch \<lparr>xmax := Finite (-1 * MAXFLOAT), ymax := Finite (-1 * MAXFLOAT)\<rparr>
      in case extent_loop E [0 ..< npoints patch] patch of
           Undefined \<Rightarrow> Undefined
         | Returns patch' \<Rightarrow> Returns (PC_SUCCESS, patch'))"

definition pc_patch_compute_extent ::
    "collaborators \<Rightarrow> PCPATCH \<Rightarrow> (status \<times> PCPATCH) outcome" where
  "pc_patch_compute_extent E patch =
     (if compression (schema patch) = PC_NONE then pc_patch_compute_extent_uncompressed E patch
      else if compression (schema patch) = PC_GHT then Returns (PC_FAILURE, patch)
      else if compression (schema patch) = PC_DIMENSIONAL then Returns (PC_FAILURE, patch)
      else Returns (PC_FAILURE, patch))"

subsection \<open>Adding points\<close>

text \<open>
  \<^verbatim>\<open>pc_patch_add_point\<close>: the reports, the status returned, and the patch behind the
  pointer \<open>c\<close> after the call.
\<close>

definition pc_patch_add_point ::
    "collaborators \<Rightarrow> PCPATCH option \<Rightarrow> PCPOINT option
       \<Rightarrow> (report list \<times> status \<times> PCPATCH option) outcome" where
  "pc_patch_add_point E c p =
     (case (c, p) of
        (Some c', Some p') \<Rightarrow>
          if pcid (schema c') \<noteq> pcid (pschema p')
          then Returns ([Pcerror SchemaMismatch], PC_FAILURE, Some c')
          else if readonly c'
          then Returns ([Pcerror ReadOnlyViolation], PC_FAILURE, Some c')
          else if compressed c' \<and> compression (schema c') \<noteq> PC_NONE
          then Returns ([Pcerror CompressedViolation], PC_FAILURE, Some c')
          else
            let sz = point_size (schema c');
                c' = (if npoints c' = maxpoints c'
                      then c' \<lparr>maxpoints := maxpoints c' * 2,
                               datasize := maxpoints c' * 2 * sz,
                               data := pcrealloc (data c') (maxpoints c' * 2 * sz)\<rparr>
                      else c')
            in (case memcpy (data c') (sz * npoints c') (pdata p') sz of
                  Undefined \<Rightarrow> Undefined
                | Returns d \<Rightarrow>
                    let c' = c' \<lparr>data := d, npoints := npoints c' + 1\<rparr>;
                        x = pc_point_get_x E p';
                        y = pc_point_get_y E p'
                    in Returns ([], PC_SUCCESS, Some (extend_bounds x y c')))
      | _ \<Rightarrow> Returns ([Pcerror NullArgument], PC_FAILURE, c))"

text \<open>
  The loop of \<^verbatim>\<open>pc_patch_from_points\<close>: \<open>n\<close> rounds are left, \<open>rest\<close> is the array from
  index \<open>i\<close> on, \<open>ptr\<close> the offset of the write pointer in the data of \<open>pch\<close>.
\<close>

fun from_points_loop ::
    "PCSCHEMA \<Rightarrow> nat \<Rightarrow> PCPOINT option list \<Rightarrow> report list \<Rightarrow> nat \<Rightarrow> PCPATCH
       \<Rightarrow> (report list \<times> PCPATCH option) outcome" where
  "from_points_loop s 0 rest msgs ptr pch = Returns (msgs, Some pch)"
| "from_points_loop s (Suc n) [] msgs ptr pch = Undefined"
| "from_points_loop s (Suc n) (None # rest) msgs ptr pch =
     from_points_loop s n rest (msgs @ [Pcwarn]) ptr pch"
| "from_points_loop s (Suc n) (Some p # rest) msgs ptr pch =
     (if addr (pschema p) \<noteq> addr s then Returns (msgs @ [Pcerror SchemaMismatch], None)
      else case memcpy (data pch) ptr (pdata p) (point_size s) of
             Undefined \<Rightarrow> Undefined
           | Returns d \<Rightarrow>
               from_points_loop s n rest msgs (ptr + point_size s)
                 (pch \<lparr>data := d, npoints := npoints pch + 1\<rparr>))"

text \<open>
  \<^verbatim>\<open>pc_patch_from_points(pts, numpts)\<close>. The schema is read through \<^verbatim>\<open>pts[0]\<close> before
  any entry is tested: a \<^verbatim>\<open>NULL\<close> first entry is dereferenced. \<^verbatim>\<open>datasize\<close> is never
  assigned and stays as \<^verbatim>\<open>pcalloc\<close> left it.
\<close>

definition pc_patch_from_points ::
    "PCPOINT option list option \<Rightarrow> nat \<Rightarrow> (report list \<times> PCPATCH option) outcome" where
  "pc_patch_from_points pts numpts =
     (if numpts = 0 then Returns ([Pcerror EmptyInput], None)
      else case pts of
        None \<Rightarrow> Returns ([Pcerror EmptyInput], None)
      | Some arr \<Rightarrow>
          (case arr of
             [] \<Rightarrow> Undefined
           | None # _ \<Rightarrow> Undefined
           | Some p0 # _ \<Rightarrow>
               let s = pschema p0 in
               if point_size s = 0 then Returns ([Pcerror InvalidSchema], None)
               else
                 let pch = (pcalloc_PCPATCH s) \<lparr>data := pcalloc (point_size s * numpts)\<rparr>;
                     pch = pch \<lparr>xmin := Finite MAXFLOAT, ymin := Finite MAXFLOAT\<rparr>;
                     pch = pch \<lparr>xmax := Finite (-1 * MAXFLOAT), ymax := Finite (-1 * MAXFLOAT)\<rparr>;
                     pch = pch \<lparr>readonly := False, compressed := False, maxpoints := numpts,
                                schema := s, npoints := 0\<rparr>
                 in from_points_loop s numpts arr [] 0 pch))"

subsection \<open>Clone and compress\<close>

definition pc_patch_clone :: "PCPATCH \<Rightarrow> PCPATCH outcome" where
  "pc_patch_clone patch =
     (let newpatch = patch in
      case memcpy (pcalloc (datasize newpatch)) 0 (data patch) (datasize newpatch) of
        Undefined \<Rightarrow> Undefined
      | Returns d \<Rightarrow> Returns (newpatch \<lparr>data := d\<rparr>))"

definition pc_patch_compress_dimensional :: "PCPATCH \<Rightarrow> report list \<times> PCPATCH option" where
  "pc_patch_compress_dimensional patch = ([Pcerror UnsupportedCompression], None)"

definition pc_patch_compress_ght :: "PCPATCH \<Rightarrow> report list \<times> PCPATCH option" where
  "pc_patch_compress_ght patch = ([Pcerror UnsupportedCompression], None)"

definition pc_patch_compress :: "PCPATCH \<Rightarrow> (report list \<times> PCPATCH option) outcome" where
  "pc_patch_compress patch =
     (let compression' = compression (schema patch) in
      if compressed patch
      then (case pc_patch_clone patch of
              Undefined \<Rightarrow> Undefined
            | Returns q \<Rightarrow> Returns ([], Some q))
      else if compression' = PC_NONE
      then (case pc_patch_clone patch of
              Undefined \<Rightarrow> Undefined
            | Returns newpatch \<Rightarrow> Returns ([], Some (newpatch \<lparr>compressed := True\<rparr>)))
      else if compression' = PC_GHT then Returns (pc_patch_compress_ght patch)
      else if compression' = PC_DIMENSIONAL then Returns (pc_patch_compress_dimensional patch)
      else Returns ([Pcerror UnsupportedCompression], None))"

subsection \<open>The wire format\<close>

definition hdrsz :: nat where
  "hdrsz = 1 + 4 + 4 + 4"

text \<open>
  \<^verbatim>\<open>pc_patch_from_wkb_uncompressed\<close>. The subtraction \<^verbatim>\<open>wkbsize - hdrsz\<close> is reached only
  after the header has been read, so the buffer has its 13 bytes. The product
  \<^verbatim>\<open>s->size * npoints\<close>, of the size check and of the allocation after it, is the
  wrapping product of \<^verbatim>\<open>size_t\<close>. The report after a failed
  \<^verbatim>\<open>pc_patch_compute_extent\<close> is followed by no \<^verbatim>\<open>return\<close>: the patch is returned. The
  report of a buffer "that is not uncompressed" is filed under \<open>UnsupportedCompression\<close>.
\<close>

definition pc_patch_from_wkb_uncompressed ::
    "collaborators \<Rightarrow> PCSCHEMA \<Rightarrow> u8 list \<Rightarrow> (report list \<times> PCPATCH option) outcome" where
  "pc_patch_from_wkb_uncompressed E s wkb =
     (let wkbsize = length wkb in
      if wkbsize = 0 then Undefined
      else
        let swap_endian = (wkb ! 0 \<noteq> endian_byte (machine_endian E)) in
        case wkb_get_compression E wkb of
          None \<Rightarrow> Undefined
        | Some tag \<Rightarrow>
            if tag \<noteq> PC_NONE then Returns ([Pcerror UnsupportedCompression], None)
            else
              (case wkb_get_npoints E wkb of
                 None \<Rightarrow> Undefined
               | Some n \<Rightarrow>
                   let npoints' = unat n;
                       product = (point_size s * npoints') mod 2 ^ size_t_bits E
                   in
                   if wkbsize - hdrsz \<noteq> product
                   then Returns ([Pcerror SizeMismatch], None)
                   else
                     (case (if swap_endian
                            then Returns (uncompressed_bytes_flip_endian E (drop hdrsz wkb) s npoints')
                            else memcpy (pcalloc product) 0 (drop hdrsz wkb) product) of
                        Undefined \<Rightarrow> Undefined
                      | Returns data' \<Rightarrow>
                          let patch = (pcalloc_PCPATCH s)
                                \<lparr>npoints := npoints', maxpoints := npoints', schema := s,
                                 compressed := True, datasize := wkbsize - hdrsz, data := data'\<rparr>
                          in (case pc_patch_compute_extent E patch of
                                Undefined \<Rightarrow> Undefined
                              | Returns (PC_FAILURE, patch') \<Rightarrow>
                                  Returns ([Pcerror UnsupportedCompression], Some patch')
                              | Returns (PC_SUCCESS, patch') \<Rightarrow> Returns ([], Some patch')))))"

text \<open>
  \<^verbatim>\<open>pc_patch_from_wkb\<close>. None of its first three reports (zero length, compression tag,
  pcid) is followed by a \<^verbatim>\<open>return\<close>: the function goes on to the \<^verbatim>\<open>switch\<close> on the tag
  of the buffer.
\<close>

definition pc_patch_from_wkb ::
    "collaborators \<Rightarrow> PCSCHEMA \<Rightarrow> u8 list \<Rightarrow> (report list \<times> PCPATCH option) outcome" where
  "pc_patch_from_wkb E s wkb =
     (let wkbsize = length wkb;
          msgs = (if wkbsize = 0 then [Pcerror EmptyInput] else [])
      in case wkb_get_pcid E wkb of
           None \<Rightarrow> Undefined
         | Some pcid' \<Rightarrow>
             (case wkb_get_compression E wkb of
                None \<Rightarrow> Undefined
              | Some compression' \<Rightarrow>
                  let msgs = msgs @ (if compression' \<noteq> compression s
                                   then [Pcerror SchemaMismatch] else []);
                      msgs = msgs @ (if pcid' \<noteq> pcid s then [Pcerror SchemaMismatch] else [])
                  in if compression' = PC_NONE
                     then (case pc_patch_from_wkb_uncompressed E s wkb of
                             Undefined \<Rightarrow> Undefined
                           | Returns (msgs', r) \<Rightarrow> Returns (msgs @ msgs', r))
                     else if compression' = PC_GHT
                     then Returns (msgs @ [Pcerror UnsupportedCompression], None)
                     else if compression' = PC_DIMENSIONAL
                     then Returns (msgs @ [Pcerror UnsupportedCompression], None)
                     else Returns (msgs @ [Pcerror UnsupportedCompression], None)))"

text \<open>
  \<^verbatim>\<open>pc_patch_to_wkb\<close>: a zeroed buffer of \<^verbatim>\<open>1 + 4 + 4 + datasize\<close> bytes, the flag at
  offset 0, the pcid in the host's byte order at offset 1, the data at offset 5.
\<close>

definition pc_patch_to_wkb :: "collaborators \<Rightarrow> PCPATCH \<Rightarrow> (u8 list \<times> nat) outcome" where
  "pc_patch_to_wkb E patch =
     (let endian' = endian_byte (machine_endian E);
          size' = 1 + 4 + 4 + datasize patch;
          wkb = pcalloc size';
          wkb = wkb [0 := endian']
      in case memcpy wkb 1 (bytes_of_u32 (machine_endian E) (pcid (schema patch))) 4 of
           Undefined \<Rightarrow> Undefined
         | Returns wkb \<Rightarrow>
             (case memcpy wkb 5 (data patch) (datasize patch) of
                Undefined \<Rightarrow> Undefined
              | Returns wkb \<Rightarrow> Returns (wkb, size')))"

subsection \<open>Sequences of calls and example values\<close>

text \<open>The bounds of a patch: \<open>(xmin, ymin, xmax, ymax)\<close>.\<close>

definition bounds :: "PCPATCH \<Rightarrow> double \<times> double \<times> double \<times> double" where
  "bounds c = (xmin c, ymin c, xmax c, ymax c)"

text \<open>
  \<^verbatim>\<open>pc_patch_add_point\<close> called for each point of a list in turn, every call returning
  \<^verbatim>\<open>PC_SUCCESS\<close>: the patch afterwards. \<open>None\<close> when a call fails or is undefined.
\<close>

fun add_points :: "collaborators \<Rightarrow> PCPATCH \<Rightarrow> PCPOINT list \<Rightarrow> PCPATCH option" where
  "add_points E c [] = Some c"
| "add_points E c (p # ps) =
     (case pc_patch_add_point E (Some c) (Some p) of
        Returns (r, PC_SUCCESS, Some c') \<Rightarrow> add_points E c' ps
      | _ \<Rightarrow> None)"

text \<open>A patch made by \<^verbatim>\<open>pc_patch_make\<close>, then the points added.\<close>

definition make_and_add :: "collaborators \<Rightarrow> PCSCHEMA \<Rightarrow> PCPOINT list \<Rightarrow> PCPATCH option" where
  "make_and_add E s ps =
     (case pc_patch_make (Some s) of
        (r, Some c0) \<Rightarrow> add_points E c0 ps
      | (r, None) \<Rightarrow> None)"

text \<open>
  Example values: a little-endian host with a \<^verbatim>\<open>size_t\<close> of 64 bits and two schemas of two one-byte dimensions, X
  then Y, read as they are (a byte swap leaves one-byte fields alone).
\<close>

definition host1 :: collaborators where
  "host1 =
     \<lparr>machine_endian = NDR, size_t_bits = 64,
      pc_point_get_x = (\<lambda>p. Finite (real (unat (pdata p ! 0)))),
      pc_point_get_y = (\<lambda>p. Finite (real (unat (pdata p ! 1)))),
      uncompressed_bytes_flip_endian = (\<lambda>b s n. take (n * point_size s) b)\<rparr>"

definition schema1 :: PCSCHEMA where
  "schema1 = \<lparr>addr = 4096, pcid = 1, point_size = 2, compression = PC_NONE\<rparr>"

definition schema2 :: PCSCHEMA where
  "schema2 = \<lparr>addr = 8192, pcid = 2, point_size = 2, compression = PC_NONE\<rparr>"

definition point1 :: PCPOINT where
  "point1 = \<lparr>pschema = schema1, pdata = [5, 7]\<rparr>"

definition point2 :: PCPOINT where
  "point2 = \<lparr>pschema = schema2, pdata = [3, 9]\<rparr>"

definition point3 :: PCPOINT where
  "point3 = \<lparr>pschema = schema1, pdata = [2, 9]\<rparr>"

text \<open>A host whose X accessor scales the byte by \<open>2\<^sup>1\<^sup>2\<^sup>8\<close>, a value every double holds exactly.\<close>

definition far_host :: collaborators where
  "far_host =
     \<lparr>machine_endian = NDR, size_t_bits = 64,
      pc_point_get_x = (\<lambda>p. Finite (2 ^ 128 * real (unat (pdata p ! 0)))),
      pc_point_get_y = (\<lambda>p. Finite (real (unat (pdata p ! 1)))),
      uncompressed_bytes_flip_endian = (\<lambda>b s n. take (n * point_size s) b)\<rparr>"

text \<open>A GHT schema with the pcid of \<open>schema1\<close>.\<close>

definition schema3 :: PCSCHEMA where
  "schema3 = \<lparr>addr = 12288, pcid = 1, point_size = 2, compression = PC_GHT\<rparr>"

text \<open>
  Wire buffers with the 13-byte header of the decoder, one point \<open>(5, 7)\<close>: flag NDR,
  pcid 1 (\<open>wkb1\<close>) or 2 (\<open>wkb2\<close>), compression tag 0, point count 1.
\<close>

definition wkb1 :: "u8 list" where
  "wkb1 = [1, 1, 0, 0, 0, 0, 0, 0, 0, 1, 0, 0, 0, 5, 7]"

definition wkb2 :: "u8 list" where
  "wkb2 = [1, 2, 0, 0, 0, 0, 0, 0, 0, 1, 0, 0, 0, 5, 7]"


text \<open>
  Schemas without compression whose point size is zero, and so large that two points wrap
  the product of the size check around to zero; header-only buffers that announce five
  points and two.
\<close>

definition schema_zero :: PCSCHEMA where
  "schema_zero = \<lparr>addr = 16384, pcid = 1, point_size = 0, compression = PC_NONE\<rparr>"

definition schema_huge :: PCSCHEMA where
  "schema_huge = \<lparr>addr = 20480, pcid = 1, point_size = 2 ^ 63, compression = PC_NONE\<rparr>"

definition wkb_five :: "u8 list" where
  "wkb_five = [1, 1, 0, 0, 0, 0, 0, 0, 0, 5, 0, 0, 0]"

definition wkb_two :: "u8 list" where
  "wkb_two = [1, 1, 0, 0, 0, 0, 0, 0, 0, 2, 0, 0, 0]"

text \<open>An uncompressed patch of one point with room for two.\<close>

definition patch1 :: PCPATCH where
  "patch1 = (pcalloc_PCPATCH schema1)
     \<lparr>npoints := 1, maxpoints := 2, datasize := 4, data := [5, 7, 0, 0],
      xmin := Finite 5, xmax := Finite 5, ymin := Finite 7, ymax := Finite 7\<rparr>"

text \<open>The patch \<^verbatim>\<open>pc_patch_from_points\<close> returns for the one point \<open>point1\<close>.\<close>

definition from_points1 :: PCPATCH where
  "from_points1 =
     \<lparr>readonly = False, npoints = 1, maxpoints = 1, schema = schema1,
      xmin = Finite MAXFLOAT, xmax = Finite (- MAXFLOAT),
      ymin = Finite MAXFLOAT, ymax = Finite (- MAXFLOAT),
      compressed = False, datasize = 0, data = [5, 7]\<rparr>"

text \<open>
  A patch encoded by \<^verbatim>\<open>pc_patch_to_wkb\<close>, the bytes decoded by \<^verbatim>\<open>pc_patch_from_wkb\<close>
  against a schema.
\<close>

definition encode_then_decode ::
    "collaborators \<Rightarrow> PCSCHEMA \<Rightarrow> PCPATCH \<Rightarrow> (report list \<times> PCPATCH option) outcome" where
  "encode_then_decode E s patch =
     (case pc_patch_to_wkb E patch of
        Undefined \<Rightarrow> Undefined
      | Returns (wkb, wkbsize) \<Rightarrow> pc_patch_from_wkb E s wkb)"

text \<open>A patch of one point that borrows its buffer.\<close>

definition view1 :: PCPATCH where
  "view1 = (pcalloc_PCPATCH schema1)
     \<lparr>readonly := True, npoints := 1, maxpoints := 1, datasize := 2, data := [5, 7]\<rparr>"

section \<open>Properties\<close>

subsection \<open>Evaluation and helper facts\<close>

lemmas add_eval =
  make_and_add_def pc_patch_make_def pc_patch_add_point_def pcalloc_PCPATCH_def Let_def
  PCPATCH_DEFAULT_MAXPOINTS_def memcpy_def pcalloc_def extend_bounds_def dgreater_def
  MAXFLOAT_def bounds_def schema1_def point1_def

lemmas wkb_eval =
  pc_patch_from_wkb_def pc_patch_from_wkb_uncompressed_def wkb_get_pcid_def
  wkb_get_compression_def wkb_get_npoints_def wkb_get_u32_def PC_NONE_def hdrsz_def memcpy_def
  pcalloc_def pcalloc_PCPATCH_def pc_patch_compute_extent_def
  pc_patch_compute_extent_uncompressed_def extent_step_def extend_bounds_def
  pc_point_from_data_def dgreater_def MAXFLOAT_def Let_def

lemma MAXFLOAT_pos: "0 < MAXFLOAT"
  by (simp add: MAXFLOAT_def)

lemma sentinel_greater: "dgreater (Finite MAXFLOAT) (Finite (-1 * MAXFLOAT))"
  using MAXFLOAT_pos by (simp add: dgreater_def)

lemma le_value_replicate_0: "le_value (replicate n 0) = 0"
  by (induction n) simp_all

lemma length_bytes_of_u32: "length (bytes_of_u32 e w) = 4"
  by (cases e) (simp_all add: u32_bytes_le_def)


lemma pc_patch_make_Some:
  "point_size s \<noteq> 0 \<Longrightarrow>
     pc_patch_make (Some s) =
       ([], Some \<lparr>readonly = False, npoints = 0, maxpoints = PCPATCH_DEFAULT_MAXPOINTS, schema = s,
                  xmin = Finite MAXFLOAT, xmax = Finite (-1 * MAXFLOAT),
                  ymin = Finite MAXFLOAT, ymax = Finite (-1 * MAXFLOAT),
                  compressed = False, datasize = point_size s * PCPATCH_DEFAULT_MAXPOINTS,
                  data = pcalloc (point_size s * PCPATCH_DEFAULT_MAXPOINTS)\<rparr>)"
  by (simp add: pc_patch_make_def pcalloc_PCPATCH_def Let_def)

lemma pc_patch_clone_Returns:
  "datasize patch \<le> length (data patch) \<Longrightarrow>
     pc_patch_clone patch = Returns (patch \<lparr>data := take (datasize patch) (data patch)\<rparr>)"
  by (simp add: pc_patch_clone_def memcpy_def pcalloc_def)




text \<open>
  What \<^verbatim>\<open>pc_patch_to_wkb\<close> returns for a patch whose buffer holds the \<open>datasize\<close> bytes it
  copies.
\<close>

lemma pc_patch_to_wkb_Returns:
  assumes "datasize patch \<le> length (data patch)"
  shows "pc_patch_to_wkb E patch =
           Returns (endian_byte (machine_endian E)
                      # bytes_of_u32 (machine_endian E) (pcid (schema patch))
                      @ take (datasize patch) (data patch) @ [0, 0, 0, 0],
                    9 + datasize patch)"
proof -
  let ?e = "endian_byte (machine_endian E)"
  let ?bs = "bytes_of_u32 (machine_endian E) (pcid (schema patch))"
  let ?ds = "datasize patch"
  have l: "length ?bs = 4" by (rule length_bytes_of_u32)
  have n: "9 + ?ds = Suc (8 + ?ds)" by simp
  have r4: "replicate 4 (0 :: u8) = [0, 0, 0, 0]" by (simp add: eval_nat_numeral)
  have a: "(pcalloc (9 + ?ds)) [0 := ?e] = ?e # replicate (8 + ?ds) 0"
    by (simp only: pcalloc_def n replicate.simps list_update.simps nat.case)
  have b: "memcpy (?e # replicate (8 + ?ds) 0) (Suc 0) ?bs 4 =
             Returns (?e # ?bs @ replicate (4 + ?ds) 0)"
    using l by (simp add: memcpy_def)
  have c: "memcpy (?e # ?bs @ replicate (4 + ?ds) 0) 5 (data patch) ?ds =
             Returns (?e # ?bs @ take ?ds (data patch) @ [0, 0, 0, 0])"
  proof -
    let ?dst = "?e # ?bs @ replicate (4 + ?ds) 0"
    have c1: "take 5 ?dst = ?e # ?bs" using l by simp
    have "drop (5 + ?ds) ?dst = drop ?ds (drop 5 ?dst)" by (simp only: drop_drop add.commute)
    also have "drop 5 ?dst = replicate (4 + ?ds) 0" using l by simp
    also have "drop ?ds (replicate (4 + ?ds) 0) = [0, 0, 0, (0 :: u8)]" by (simp add: r4)
    finally have c2: "drop (5 + ?ds) ?dst = [0, 0, 0, 0]" .
    have c3: "5 + ?ds \<le> length ?dst" using l by simp
    show ?thesis
      unfolding memcpy_def using assms c3 by (simp only: c1 c2 if_True simp_thms append_Cons)
  qed
  show ?thesis
    by (simp add: pc_patch_to_wkb_def Let_def a b c del: replicate.simps)
qed

lemma make_and_add_point1:
  "make_and_add host1 schema1 [point1] =
     Some \<lparr>readonly = False, npoints = 1, maxpoints = 64, schema = schema1,
            xmin = Finite 5, xmax = Finite 5, ymin = Finite 7, ymax = Finite 7,
            compressed = False, datasize = 128, data = [5, 7] @ replicate 126 0\<rparr>"
  by (simp add: add_eval host1_def)

subsection \<open>Encoding, then decoding\<close>

text \<open>
  C1. Decoding the bytes that encode the patch built from a sequence of points is said to
  give back the point count and the points. Two things in the code stand against it.
  \<^verbatim>\<open>pc_patch_from_points\<close> never assigns \<^verbatim>\<open>datasize\<close>, so \<^verbatim>\<open>pc_patch_to_wkb\<close> copies no data:
  the patch of the one point \<open>(5, 7)\<close> is encoded in 9 bytes, and the decoder reads its
  point count behind them. And \<^verbatim>\<open>pc_patch_to_wkb\<close>, whose format comment and buffer size
  have a compression field at offset 5, writes the data there and no point count: for the
  same point added to a patch of \<^verbatim>\<open>pc_patch_make\<close>, the decoder reads the bytes of the
  point as the compression tag \<open>1797\<close>, reports and returns \<^verbatim>\<open>NULL\<close>.
\<close>

theorem encode_then_decode_examples:
  "pc_patch_from_points (Some [Some point1]) 1 = Returns ([], Some from_points1) \<and>
   pc_patch_to_wkb host1 from_points1 = Returns ([1, 1, 0, 0, 0, 0, 0, 0, 0], 9) \<and>
   encode_then_decode host1 schema1 from_points1 = Undefined \<and>
   map_option (encode_then_decode host1 schema1) (make_and_add host1 schema1 [point1]) =
     Some (Returns ([Pcerror SchemaMismatch, Pcerror UnsupportedCompression], None))"
proof -
  have a: "pc_patch_from_points (Some [Some point1]) 1 = Returns ([], Some from_points1)"
    by (simp add: pc_patch_from_points_def point1_def schema1_def pcalloc_PCPATCH_def Let_def
        memcpy_def pcalloc_def PC_NONE_def from_points1_def)
  have b: "pc_patch_to_wkb host1 from_points1 = Returns ([1, 1, 0, 0, 0, 0, 0, 0, 0], 9)"
    by (simp add: pc_patch_to_wkb_Returns from_points1_def host1_def schema1_def
        u32_bytes_le_def)
  have "pc_patch_from_wkb host1 schema1 [1, 1, 0, 0, 0, 0, 0, 0, 0] = Undefined"
    by (simp add: wkb_eval host1_def schema1_def)
  with b have c: "encode_then_decode host1 schema1 from_points1 = Undefined"
    by (simp add: encode_then_decode_def)
  have d: "map_option (encode_then_decode host1 schema1) (make_and_add host1 schema1 [point1]) =
             Some (Returns ([Pcerror SchemaMismatch, Pcerror UnsupportedCompression], None))"
    unfolding make_and_add_point1
    by (simp add: encode_then_decode_def pc_patch_to_wkb_Returns wkb_eval host1_def schema1_def
        le_value_replicate_0 PC_GHT_def PC_DIMENSIONAL_def u32_bytes_le_def)
  from a b c d show ?thesis by blast
qed

subsection \<open>Decoding a buffer that disagrees with the schema\<close>

text \<open>
  C2. A buffer whose pcid or compression tag disagrees with the schema is said to make
  \<^verbatim>\<open>pc_patch_from_wkb\<close> fail at once and return no patch. The two reports are followed by
  no \<^verbatim>\<open>return\<close>, unlike every other report of a mismatch in the file, and the function
  goes on to decode: \<open>wkb2\<close> has pcid 2, the schema pcid 1, and a patch is returned next to
  the report; \<open>wkb1\<close> has the tag of no compression, \<open>schema3\<close> is a GHT schema, and a
  patch is returned whose bounds were never computed.
\<close>

theorem from_wkb_mismatch_falls_through:
  "wkb_get_pcid host1 wkb2 = Some 2 \<and> pcid schema1 = 1 \<and>
   pc_patch_from_wkb host1 schema1 wkb2 =
     Returns ([Pcerror SchemaMismatch],
       Some \<lparr>readonly = False, npoints = 1, maxpoints = 1, schema = schema1,
             xmin = Finite 5, xmax = Finite 5, ymin = Finite 7, ymax = Finite 7,
             compressed = True, datasize = 2, data = [5, 7]\<rparr>) \<and>
   wkb_get_compression host1 wkb1 = Some PC_NONE \<and> compression schema3 = PC_GHT \<and>
   pc_patch_from_wkb host1 schema3 wkb1 =
     Returns ([Pcerror SchemaMismatch, Pcerror UnsupportedCompression],
       Some \<lparr>readonly = False, npoints = 1, maxpoints = 1, schema = schema3,
             xmin = Finite 0, xmax = Finite 0, ymin = Finite 0, ymax = Finite 0,
             compressed = True, datasize = 2, data = [5, 7]\<rparr>)"
  by (simp add: wkb_eval wkb1_def wkb2_def host1_def schema1_def schema3_def PC_GHT_def
      PC_DIMENSIONAL_def)

subsection \<open>Clone\<close>

text \<open>
  C3. The clone of a patch is said to have \<open>readonly = false\<close> whatever the flag of its
  source. \<^verbatim>\<open>pc_patch_clone\<close> copies the whole structure and replaces the data pointer only:
  the clone of the read-only \<open>view1\<close> owns a fresh buffer and is flagged read-only, so
  \<^verbatim>\<open>pc_patch_free\<close> would not release that buffer.
\<close>

theorem clone_of_readonly_is_readonly:
  "pc_patch_clone view1 = Returns view1 \<and> readonly view1"
  by (simp add: pc_patch_clone_def memcpy_def pcalloc_def view1_def pcalloc_PCPATCH_def)

subsection \<open>Decoding without compression\<close>


text \<open>
  Outside these conditions the decoder reads points out of the buffer it has allocated:
  with a point size of zero, a header alone passes the size check for any point count;
  and with a product that wraps around, so does a buffer shorter than its points.
\<close>

lemma from_wkb_outside_buffer_examples:
  "pc_patch_from_wkb host1 schema_zero wkb_five = Undefined \<and>
   pc_patch_from_wkb host1 schema_huge wkb_two = Undefined"
  by (simp add: wkb_eval wkb_five_def wkb_two_def host1_def schema_zero_def schema_huge_def
      upt_conv_Cons)



subsection \<open>Bounds\<close>

text \<open>
  C5 (as the code has it). Resetting the bounds sets \<open>xmin = ymin = MAXFLOAT\<close> and
  \<open>xmax = ymax = -MAXFLOAT\<close>, the largest finite single-precision number and its negation,
  and there the minimum is greater than the maximum. \<^verbatim>\<open>pc_patch_make\<close> returns its patch
  with these bounds. \<^verbatim>\<open>pc_patch_compute_extent_uncompressed\<close> starts from them for every
  patch: what it returns is what its loop over the points makes of the patch with these
  bounds, and does not depend on the bounds the patch had before; for a patch without
  points they are the bounds returned.
\<close>

theorem reset_bounds_MAXFLOAT:
  "(point_size s \<noteq> 0 \<longrightarrow>
      (\<exists>pch. pc_patch_make (Some s) = ([], Some pch) \<and>
         bounds pch =
           (Finite MAXFLOAT, Finite MAXFLOAT, Finite (-1 * MAXFLOAT), Finite (-1 * MAXFLOAT)) \<and>
         dgreater (xmin pch) (xmax pch) \<and> dgreater (ymin pch) (ymax pch))) \<and>
   pc_patch_compute_extent_uncompressed E patch =
     (case extent_loop E [0 ..< npoints patch]
             (patch \<lparr>xmin := Finite MAXFLOAT, ymin := Finite MAXFLOAT,
                     xmax := Finite (-1 * MAXFLOAT), ymax := Finite (-1 * MAXFLOAT)\<rparr>) of
        Undefined \<Rightarrow> Undefined
      | Returns q \<Rightarrow> Returns (PC_SUCCESS, q)) \<and>
   pc_patch_compute_extent_uncompressed E (patch \<lparr>xmin := a, ymin := b, xmax := c, ymax := d\<rparr>) =
     pc_patch_compute_extent_uncompressed E patch \<and>
   (npoints patch = 0 \<longrightarrow>
      (\<exists>q. pc_patch_compute_extent_uncompressed E patch = Returns (PC_SUCCESS, q) \<and>
         bounds q =
           (Finite MAXFLOAT, Finite MAXFLOAT, Finite (-1 * MAXFLOAT), Finite (-1 * MAXFLOAT)) \<and>
         dgreater (xmin q) (xmax q) \<and> dgreater (ymin q) (ymax q)))"
proof -
  have m: "point_size s \<noteq> 0 \<longrightarrow>
      (\<exists>pch. pc_patch_make (Some s) = ([], Some pch) \<and>
         bounds pch =
           (Finite MAXFLOAT, Finite MAXFLOAT, Finite (-1 * MAXFLOAT), Finite (-1 * MAXFLOAT)) \<and>
         dgreater (xmin pch) (xmax pch) \<and> dgreater (ymin pch) (ymax pch))"
    using sentinel_greater by (simp add: pc_patch_make_Some bounds_def)
  have l: "pc_patch_compute_extent_uncompressed E patch =
     (case extent_loop E [0 ..< npoints patch]
             (patch \<lparr>xmin := Finite MAXFLOAT, ymin := Finite MAXFLOAT,
                     xmax := Finite (-1 * MAXFLOAT), ymax := Finite (-1 * MAXFLOAT)\<rparr>) of
        Undefined \<Rightarrow> Undefined
      | Returns q \<Rightarrow> Returns (PC_SUCCESS, q))"
    by (simp add: pc_patch_compute_extent_uncompressed_def)
  have r: "pc_patch_compute_extent_uncompressed E
             (patch \<lparr>xmin := a, ymin := b, xmax := c, ymax := d\<rparr>) =
           pc_patch_compute_extent_uncompressed E patch"
    by (simp add: pc_patch_compute_extent_uncompressed_def)
  have e: "npoints patch = 0 \<longrightarrow>
      (\<exists>q. pc_patch_compute_extent_uncompressed E patch = Returns (PC_SUCCESS, q) \<and>
         bounds q =
           (Finite MAXFLOAT, Finite MAXFLOAT, Finite (-1 * MAXFLOAT), Finite (-1 * MAXFLOAT)) \<and>
         dgreater (xmin q) (xmax q) \<and> dgreater (ymin q) (ymax q))"
    using sentinel_greater
    by (simp add: pc_patch_compute_extent_uncompressed_def bounds_def)
  from m l r e show ?thesis by blast
qed

theorem reset_bounds_MAXFLOAT_witness:
  "point_size schema1 \<noteq> 0 \<and>
   map_option bounds (snd (pc_patch_make (Some schema1))) =
     Some (Finite MAXFLOAT, Finite MAXFLOAT, Finite (-1 * MAXFLOAT), Finite (-1 * MAXFLOAT)) \<and>
   npoints (pcalloc_PCPATCH schema1) = 0 \<and>
   pc_patch_compute_extent_uncompressed host1 (pcalloc_PCPATCH schema1) =
     Returns (PC_SUCCESS,
       (pcalloc_PCPATCH schema1)
         \<lparr>xmin := Finite MAXFLOAT, ymin := Finite MAXFLOAT,
          xmax := Finite (-1 * MAXFLOAT), ymax := Finite (-1 * MAXFLOAT)\<rparr>) \<and>
   npoints patch1 \<noteq> 0 \<and>
   pc_patch_compute_extent_uncompressed host1
     (patch1 \<lparr>xmin := Finite (- 100), ymin := Finite (- 100),
              xmax := Finite 100, ymax := Finite 100\<rparr>) =
     Returns (PC_SUCCESS, patch1)"
proof -
  have h1: "point_size schema1 \<noteq> 0" by (simp add: schema1_def)
  have h2: "npoints (pcalloc_PCPATCH schema1) = 0" by (simp add: pcalloc_PCPATCH_def)
  have h3: "npoints patch1 \<noteq> 0" by (simp add: patch1_def)
  note empty = reset_bounds_MAXFLOAT
    [where s = schema1 and E = host1 and patch = "pcalloc_PCPATCH schema1" and a = NaN
       and b = NaN and c = NaN and d = NaN]
  from empty h1 have mk:
    "map_option bounds (snd (pc_patch_make (Some schema1))) =
       Some (Finite MAXFLOAT, Finite MAXFLOAT, Finite (-1 * MAXFLOAT), Finite (-1 * MAXFLOAT))"
    by auto
  from empty h2 have em:
    "pc_patch_compute_extent_uncompressed host1 (pcalloc_PCPATCH schema1) =
       Returns (PC_SUCCESS,
         (pcalloc_PCPATCH schema1)
           \<lparr>xmin := Finite MAXFLOAT, ymin := Finite MAXFLOAT,
            xmax := Finite (-1 * MAXFLOAT), ymax := Finite (-1 * MAXFLOAT)\<rparr>)"
    by simp
  note stale = reset_bounds_MAXFLOAT
    [where s = schema1 and E = host1 and patch = patch1 and a = "Finite (- 100)"
       and b = "Finite (- 100)" and c = "Finite 100" and d = "Finite 100"]
  have "pc_patch_compute_extent_uncompressed host1 patch1 = Returns (PC_SUCCESS, patch1)"
    by (simp add: pc_patch_compute_extent_uncompressed_def extent_step_def extend_bounds_def
        pc_point_from_data_def dgreater_def MAXFLOAT_def Let_def patch1_def host1_def
        pcalloc_PCPATCH_def schema1_def)
  with stale have st:
    "pc_patch_compute_extent_uncompressed host1
       (patch1 \<lparr>xmin := Finite (- 100), ymin := Finite (- 100),
                xmax := Finite 100, ymax := Finite 100\<rparr>) =
     Returns (PC_SUCCESS, patch1)"
    by simp
  from h1 mk h2 em h3 st show ?thesis by blast
qed

text \<open>
  C5 as stated has the bounds reset to plus and minus infinity. The sentinel of the code is
  finite.
\<close>

theorem reset_bounds_not_infinite:
  "map_option xmin (snd (pc_patch_make (Some schema1))) = Some (Finite MAXFLOAT) \<and>
   map_option xmax (snd (pc_patch_make (Some schema1))) = Some (Finite (-1 * MAXFLOAT)) \<and>
   pc_patch_compute_extent_uncompressed host1 (pcalloc_PCPATCH schema1) =
     Returns (PC_SUCCESS,
       (pcalloc_PCPATCH schema1)
         \<lparr>xmin := Finite MAXFLOAT, ymin := Finite MAXFLOAT,
          xmax := Finite (-1 * MAXFLOAT), ymax := Finite (-1 * MAXFLOAT)\<rparr>) \<and>
   Finite MAXFLOAT \<noteq> PlusInf \<and> Finite (-1 * MAXFLOAT) \<noteq> MinusInf"
  by (simp add: pc_patch_make_def schema1_def pcalloc_PCPATCH_def Let_def
      pc_patch_compute_extent_uncompressed_def)

lemma extend_bounds_Finite:
  "xmin c = Finite a \<Longrightarrow> xmax c = Finite b \<Longrightarrow> ymin c = Finite a' \<Longrightarrow> ymax c = Finite b' \<Longrightarrow>
   extend_bounds (Finite x) (Finite y) c =
     c \<lparr>xmin := Finite (min x a), ymin := Finite (min y a'),
        xmax := Finite (max x b), ymax := Finite (max y b')\<rparr>"
  by (cases c) (auto simp: extend_bounds_def dgreater_def Let_def min_def max_def)

lemma add_point_SUCCESS:
  assumes "pc_patch_add_point E (Some c) (Some p) = Returns (r, PC_SUCCESS, Some c')"
  shows "\<exists>c1. c' = extend_bounds (pc_point_get_x E p) (pc_point_get_y E p) c1 \<and>
           bounds c1 = bounds c \<and> npoints c1 = npoints c + 1"
  using assms
  by (auto simp: pc_patch_add_point_def Let_def bounds_def split: if_splits outcome.splits)

lemma add_points_bounds:
  "add_points E c ps = Some c' \<Longrightarrow>
   map (pc_point_get_x E) ps = map Finite xs \<Longrightarrow>
   map (pc_point_get_y E) ps = map Finite ys \<Longrightarrow>
   bounds c = (Finite a, Finite a', Finite b, Finite b') \<Longrightarrow>
   bounds c' = (Finite (fold min xs a), Finite (fold min ys a'),
                Finite (fold max xs b), Finite (fold max ys b')) \<and>
   npoints c' = npoints c + length ps"
proof (induction ps arbitrary: c xs ys a a' b b')
  case Nil
  then show ?case by simp
next
  case (Cons p ps)
  from Cons.prems(2) obtain x xs' where xs: "xs = x # xs'" "pc_point_get_x E p = Finite x"
      "map (pc_point_get_x E) ps = map Finite xs'"
    by (cases xs) auto
  from Cons.prems(3) obtain y ys' where ys: "ys = y # ys'" "pc_point_get_y E p = Finite y"
      "map (pc_point_get_y E) ps = map Finite ys'"
    by (cases ys) auto
  from Cons.prems(1) obtain r c2 where
      step: "pc_patch_add_point E (Some c) (Some p) = Returns (r, PC_SUCCESS, Some c2)"
      and rest: "add_points E c2 ps = Some c'"
    by (auto split: outcome.splits status.splits option.splits)
  from add_point_SUCCESS [OF step] obtain c1 where
      c1: "c2 = extend_bounds (Finite x) (Finite y) c1" "bounds c1 = bounds c"
          "npoints c1 = npoints c + 1"
    using xs(2) ys(2) by auto
  from c1(2) Cons.prems(4) have
      "xmin c1 = Finite a" "xmax c1 = Finite b" "ymin c1 = Finite a'" "ymax c1 = Finite b'"
    by (simp_all add: bounds_def)
  from extend_bounds_Finite [OF this, of x y] c1 have
      b2: "bounds c2 = (Finite (min x a), Finite (min y a'), Finite (max x b), Finite (max y b'))"
      and n2: "npoints c2 = npoints c + 1"
    by (simp_all add: bounds_def)
  from Cons.IH [OF rest xs(3) ys(3) b2] n2 show ?case
    by (simp add: xs(1) ys(1))
qed

lemma fold_min_Min:
  fixes a :: real
  assumes "xs \<noteq> []" and "\<forall>x \<in> set xs. x \<le> a"
  shows "fold min xs a = Min (set xs)"
proof -
  have "fold min xs a = Min (set (a # xs))"
    by (simp only: Min.set_eq_fold)
  also have "\<dots> = min a (Min (set xs))"
    using assms(1) by simp
  also have "\<dots> = Min (set xs)"
  proof -
    have "Min (set xs) \<in> set xs" using assms(1) by (simp add: Min_in)
    with assms(2) have "Min (set xs) \<le> a" by blast
    then show ?thesis by (simp add: min_def)
  qed
  finally show ?thesis .
qed

lemma fold_max_Max:
  fixes b :: real
  assumes "xs \<noteq> []" and "\<forall>x \<in> set xs. b \<le> x"
  shows "fold max xs b = Max (set xs)"
proof -
  have "fold max xs b = Max (set (b # xs))"
    by (simp only: Max.set_eq_fold)
  also have "\<dots> = max b (Max (set xs))"
    using assms(1) by simp
  also have "\<dots> = Max (set xs)"
  proof -
    have "Max (set xs) \<in> set xs" using assms(1) by (simp add: Max_in)
    with assms(2) have "b \<le> Max (set xs)" by blast
    then show ?thesis by (simp add: max_def)
  qed
  finally show ?thesis .
qed

text \<open>
  C6 (as the code has it). For every patch made by \<^verbatim>\<open>pc_patch_make\<close> and every sequence of
  successful \<^verbatim>\<open>pc_patch_add_point\<close> calls on it whose points have finite X and Y between
  \<open>-MAXFLOAT\<close> and \<open>MAXFLOAT\<close>: the patch counts the points added, \<open>xmin\<close> is the least X
  and \<open>xmax\<close> the greatest X of the points added (and so for Y); with no point, the
  minimum is greater than the maximum.
\<close>

theorem bounds_after_add_points:
  assumes "make_and_add E s ps = Some c"
      and "map (pc_point_get_x E) ps = map Finite xs"
      and "map (pc_point_get_y E) ps = map Finite ys"
      and "\<forall>v \<in> set xs \<union> set ys. - MAXFLOAT \<le> v \<and> v \<le> MAXFLOAT"
  shows "npoints c = length ps \<and>
         (ps \<noteq> [] \<longrightarrow>
            xmin c = Finite (Min (set xs)) \<and> xmax c = Finite (Max (set xs)) \<and>
            ymin c = Finite (Min (set ys)) \<and> ymax c = Finite (Max (set ys))) \<and>
         (npoints c = 0 \<longrightarrow> dgreater (xmin c) (xmax c) \<and> dgreater (ymin c) (ymax c))"
proof -
  from assms(1) obtain r c0 where
      mk: "pc_patch_make (Some s) = (r, Some c0)" and ad: "add_points E c0 ps = Some c"
    by (auto simp: make_and_add_def split: prod.splits option.splits)
  from mk have b0: "bounds c0 = (Finite MAXFLOAT, Finite MAXFLOAT,
                                 Finite (- MAXFLOAT), Finite (- MAXFLOAT))"
      and n0: "npoints c0 = 0"
    by (auto simp: pc_patch_make_def pcalloc_PCPATCH_def Let_def bounds_def
             split: option.splits if_splits)
  from add_points_bounds [OF ad assms(2) assms(3) b0] have
      bc: "bounds c = (Finite (fold min xs MAXFLOAT), Finite (fold min ys MAXFLOAT),
                       Finite (fold max xs (- MAXFLOAT)), Finite (fold max ys (- MAXFLOAT)))"
      and nc: "npoints c = length ps"
    using n0 by simp_all
  have lx: "length xs = length ps" using assms(2) by (metis length_map)
  have ly: "length ys = length ps" using assms(3) by (metis length_map)
  have ne: "xmin c = Finite (Min (set xs)) \<and> xmax c = Finite (Max (set xs)) \<and>
            ymin c = Finite (Min (set ys)) \<and> ymax c = Finite (Max (set ys))" if "ps \<noteq> []"
  proof -
    from that lx ly have x: "xs \<noteq> []" and y: "ys \<noteq> []" by auto
    from assms(4) have
        "\<forall>v \<in> set xs. v \<le> MAXFLOAT" "\<forall>v \<in> set xs. - MAXFLOAT \<le> v"
        "\<forall>v \<in> set ys. v \<le> MAXFLOAT" "\<forall>v \<in> set ys. - MAXFLOAT \<le> v"
      by auto
    then show ?thesis
      using bc x y by (simp add: bounds_def fold_min_Min fold_max_Max)
  qed
  have em: "dgreater (xmin c) (xmax c) \<and> dgreater (ymin c) (ymax c)" if "npoints c = 0"
  proof -
    from that nc have "ps = []" by simp
    with ad have "c = c0" by simp
    with b0 show ?thesis using sentinel_greater by (simp add: bounds_def)
  qed
  from nc ne em show ?thesis by blast
qed

theorem bounds_after_add_points_witness:
  "map_option bounds (make_and_add host1 schema1 [point1, point3]) =
     Some (Finite 2, Finite 7, Finite 5, Finite 9) \<and>
   map_option npoints (make_and_add host1 schema1 [point1, point3]) = Some 2 \<and>
   map_option npoints (make_and_add host1 schema1 []) = Some 0 \<and>
   map_option (\<lambda>c. dgreater (xmin c) (xmax c) \<and> dgreater (ymin c) (ymax c))
     (make_and_add host1 schema1 []) = Some True"
proof -
  have "make_and_add host1 schema1 [point1, point3] \<noteq> None"
    by (simp add: add_eval host1_def point3_def)
  then obtain c where c: "make_and_add host1 schema1 [point1, point3] = Some c"
    by blast
  have hx: "map (pc_point_get_x host1) [point1, point3] = map Finite [5, 2]"
    by (simp add: host1_def point1_def point3_def)
  have hy: "map (pc_point_get_y host1) [point1, point3] = map Finite [7, 9]"
    by (simp add: host1_def point1_def point3_def)
  have hb: "\<forall>v \<in> set [5, 2] \<union> set [7, 9]. - MAXFLOAT \<le> v \<and> v \<le> MAXFLOAT"
    by (simp add: MAXFLOAT_def)
  from bounds_after_add_points [OF c hx hy hb] have two:
    "map_option bounds (make_and_add host1 schema1 [point1, point3]) =
       Some (Finite 2, Finite 7, Finite 5, Finite 9) \<and>
     map_option npoints (make_and_add host1 schema1 [point1, point3]) = Some 2"
    using c by (simp add: bounds_def)
  have "make_and_add host1 schema1 [] \<noteq> None"
    by (simp add: add_eval)
  then obtain c0 where c0: "make_and_add host1 schema1 [] = Some c0"
    by blast
  have ex: "map (pc_point_get_x host1) [] = map Finite []" by simp
  have ey: "map (pc_point_get_y host1) [] = map Finite []" by simp
  have eb: "\<forall>v \<in> set [] \<union> set []. - MAXFLOAT \<le> v \<and> v \<le> MAXFLOAT" by simp
  from bounds_after_add_points [OF c0 ex ey eb] have none:
    "map_option npoints (make_and_add host1 schema1 []) = Some 0 \<and>
     map_option (\<lambda>c. dgreater (xmin c) (xmax c) \<and> dgreater (ymin c) (ymax c))
       (make_and_add host1 schema1 []) = Some True"
    using c0 by simp
  from two none show ?thesis by blast
qed

text \<open>
  C6 as stated covers every point. A point whose X is \<open>5 * 2\<^sup>1\<^sup>2\<^sup>8\<close>, beyond \<open>MAXFLOAT\<close>,
  is added with success and \<open>xmin\<close> stays at the sentinel, which is not the X of the only
  point of the patch.
\<close>

theorem far_point_counterexample:
  "map_option bounds (make_and_add far_host schema1 [point1]) =
     Some (Finite MAXFLOAT, Finite 7, Finite (5 * 2 ^ 128), Finite 7) \<and>
   pc_point_get_x far_host point1 = Finite (5 * 2 ^ 128) \<and>
   Finite MAXFLOAT \<noteq> Finite (5 * 2 ^ 128)"
  by (simp add: add_eval far_host_def)

subsection \<open>A patch from an array of points\<close>

text \<open>
  C7. \<^verbatim>\<open>pc_patch_from_points\<close> is said to take the schema of the first non-null point and
  to skip null entries with a warning. Its loop does skip them, but the schema is read
  through \<^verbatim>\<open>pts[0]\<close> before the loop, with no test: for an array whose first entry is
  \<^verbatim>\<open>NULL\<close> and whose second is a point, \<^verbatim>\<open>NULL\<close> is dereferenced.
\<close>

theorem from_points_null_first_entry:
  "pc_patch_from_points (Some [None, Some point1]) 2 = Undefined"
  by (simp add: pc_patch_from_points_def)

subsection \<open>Adding a point of another pcid\<close>

text \<open>
  C8. For every patch and every point whose schema has another pcid than the schema of
  the patch, \<^verbatim>\<open>pc_patch_add_point\<close> reports \<open>SchemaMismatch\<close>, returns \<^verbatim>\<open>PC_FAILURE\<close> and
  leaves the patch as it was: its point count, its buffer and its bounds.
\<close>

theorem add_point_pcid_mismatch:
  "pcid (schema c) \<noteq> pcid (pschema p) \<Longrightarrow>
     pc_patch_add_point E (Some c) (Some p) =
       Returns ([Pcerror SchemaMismatch], PC_FAILURE, Some c)"
  by (simp add: pc_patch_add_point_def)

theorem add_point_pcid_mismatch_witness:
  "pcid (schema view1) \<noteq> pcid (pschema point2) \<and>
   pc_patch_add_point host1 (Some view1) (Some point2) =
     Returns ([Pcerror SchemaMismatch], PC_FAILURE, Some view1)"
proof -
  have ne: "pcid (schema view1) \<noteq> pcid (pschema point2)"
    by (simp add: view1_def pcalloc_PCPATCH_def point2_def schema1_def schema2_def)
  show ?thesis
    using ne add_point_pcid_mismatch [OF ne, of host1] by simp
qed

subsection \<open>Compress\<close>

text \<open>
  C9. For every uncompressed patch whose schema has no compression (and whose buffer
  holds the \<open>datasize\<close> bytes it declares), \<^verbatim>\<open>pc_patch_compress\<close> returns a patch \<open>q\<close>
  marked compressed, with the point count, the bounds and the \<open>datasize\<close> data bytes of
  its argument; \<^verbatim>\<open>pc_patch_compress\<close> of \<open>q\<close> returns \<open>q\<close> again, field for field, which
  is also what \<^verbatim>\<open>pc_patch_clone\<close> of \<open>q\<close> returns. And for every patch \<open>p\<close> that is
  marked compressed, \<^verbatim>\<open>pc_patch_compress\<close> returns what \<^verbatim>\<open>pc_patch_clone\<close> returns.
\<close>

theorem compress_none_idempotent:
  assumes "compression (schema patch) = PC_NONE"
      and "\<not> compressed patch"
      and "datasize patch \<le> length (data patch)"
  shows "\<exists>q. pc_patch_compress patch = Returns ([], Some q) \<and> compressed q \<and>
           pc_patch_compress q = Returns ([], Some q) \<and>
           pc_patch_clone q = Returns q \<and>
           npoints q = npoints patch \<and> bounds q = bounds patch \<and>
           data q = take (datasize patch) (data patch) \<and>
           (compressed p \<longrightarrow>
              pc_patch_compress p =
                (case pc_patch_clone p of
                   Undefined \<Rightarrow> Undefined
                 | Returns c \<Rightarrow> Returns ([], Some c)))"
proof -
  define q where "q = patch \<lparr>data := take (datasize patch) (data patch), compressed := True\<rparr>"
  have 1: "pc_patch_compress patch = Returns ([], Some q)"
    using assms by (simp add: pc_patch_compress_def pc_patch_clone_Returns q_def Let_def)
  have "datasize q \<le> length (data q)"
    using assms(3) by (simp add: q_def)
  from pc_patch_clone_Returns [OF this] have 2: "pc_patch_clone q = Returns q"
    by (simp add: q_def)
  have 4: "compressed q" by (simp add: q_def)
  have 3: "pc_patch_compress q = Returns ([], Some q)"
    using 4 by (simp add: pc_patch_compress_def 2 Let_def)
  have 5: "npoints q = npoints patch \<and> bounds q = bounds patch \<and>
           data q = take (datasize patch) (data patch)"
    by (simp add: q_def bounds_def)
  have 6: "compressed p \<longrightarrow>
              pc_patch_compress p =
                (case pc_patch_clone p of
                   Undefined \<Rightarrow> Undefined
                 | Returns c \<Rightarrow> Returns ([], Some c))"
    by (simp add: pc_patch_compress_def Let_def)
  from 1 2 3 4 5 6 show ?thesis by blast
qed

theorem compress_none_idempotent_witness:
  "compression (schema patch1) = PC_NONE \<and> \<not> compressed patch1 \<and>
   datasize patch1 \<le> length (data patch1) \<and>
   pc_patch_compress patch1 = Returns ([], Some (patch1 \<lparr>compressed := True\<rparr>)) \<and>
   pc_patch_compress (patch1 \<lparr>compressed := True\<rparr>) =
     Returns ([], Some (patch1 \<lparr>compressed := True\<rparr>)) \<and>
   compressed (patch1 \<lparr>compressed := True\<rparr>) \<and>
   pc_patch_clone (patch1 \<lparr>compressed := True\<rparr>) =
     Returns (patch1 \<lparr>compressed := True\<rparr>)"
proof -
  have h1: "compression (schema patch1) = PC_NONE"
    by (simp add: patch1_def pcalloc_PCPATCH_def schema1_def)
  have h2: "\<not> compressed patch1" by (simp add: patch1_def pcalloc_PCPATCH_def)
  have h3: "datasize patch1 \<le> length (data patch1)" by (simp add: patch1_def)
  have ev: "pc_patch_compress patch1 = Returns ([], Some (patch1 \<lparr>compressed := True\<rparr>))"
    using h1 h2 by (simp add: pc_patch_compress_def pc_patch_clone_def memcpy_def pcalloc_def
        Let_def) (simp add: patch1_def)
  have h4: "compressed (patch1 \<lparr>compressed := True\<rparr>)" by simp
  from compress_none_idempotent [OF h1 h2 h3, of "patch1 \<lparr>compressed := True\<rparr>"] ev
  have "pc_patch_compress (patch1 \<lparr>compressed := True\<rparr>) =
          Returns ([], Some (patch1 \<lparr>compressed := True\<rparr>))"
    and "pc_patch_clone (patch1 \<lparr>compressed := True\<rparr>) =
          Returns (patch1 \<lparr>compressed := True\<rparr>)"
    by auto
  with h1 h2 h3 h4 ev show ?thesis by blast
qed

subsection \<open>Encoding\<close>

text \<open>
  C10. For every patch (whose buffer holds the \<open>datasize\<close> bytes it declares),
  \<^verbatim>\<open>pc_patch_to_wkb\<close> returns a buffer of \<open>1 + 4 + 4 + datasize\<close> bytes: the flag, the four
  bytes of the pcid, the \<open>datasize\<close> data bytes from offset 5 on, and four bytes after
  them that are zero. No compression tag and no point count is written.
\<close>

theorem to_wkb_layout:
  assumes "datasize patch \<le> length (data patch)"
  shows "\<exists>wkb. pc_patch_to_wkb E patch = Returns (wkb, 1 + 4 + 4 + datasize patch) \<and>
           length wkb = 1 + 4 + 4 + datasize patch \<and>
           wkb = endian_byte (machine_endian E)
                   # bytes_of_u32 (machine_endian E) (pcid (schema patch))
                   @ take (datasize patch) (data patch) @ [0, 0, 0, 0] \<and>
           take (datasize patch) (drop 5 wkb) = take (datasize patch) (data patch) \<and>
           drop (5 + datasize patch) wkb = [0, 0, 0, 0]"
proof -
  define w where "w = endian_byte (machine_endian E)
                   # bytes_of_u32 (machine_endian E) (pcid (schema patch))
                   @ take (datasize patch) (data patch) @ [0, 0, 0, 0]"
  have r: "pc_patch_to_wkb E patch = Returns (w, 1 + 4 + 4 + datasize patch)"
    using assms by (simp add: pc_patch_to_wkb_Returns w_def)
  have l: "length w = 1 + 4 + 4 + datasize patch"
    using assms by (simp add: w_def length_bytes_of_u32)
  have d5: "drop 5 w = take (datasize patch) (data patch) @ [0, 0, 0, 0]"
    by (simp add: w_def length_bytes_of_u32)
  have t: "take (datasize patch) (drop 5 w) = take (datasize patch) (data patch)"
    using assms by (simp add: d5)
  have "drop (5 + datasize patch) w = drop (datasize patch) (drop 5 w)"
    by (simp add: add.commute)
  then have z: "drop (5 + datasize patch) w = [0, 0, 0, 0]"
    using assms by (simp add: d5)
  from r l t z show ?thesis
    unfolding w_def [symmetric] by blast
qed

theorem to_wkb_layout_witness:
  "datasize patch1 \<le> length (data patch1) \<and>
   pc_patch_to_wkb host1 patch1 = Returns ([1, 1, 0, 0, 0, 5, 7, 0, 0, 0, 0, 0, 0], 13)"
proof -
  have h: "datasize patch1 \<le> length (data patch1)" by (simp add: patch1_def)
  from to_wkb_layout [OF h, of host1] show ?thesis
    using h
    by (auto simp: patch1_def host1_def pcalloc_PCPATCH_def schema1_def u32_bytes_le_def)
qed

end
